theory Spec2Isabelle
  imports Main "HOL-Library.Word" "HOL-Library.State_Monad"
begin

section \<open>The gRPC facade of the security module (C++)\<close>

text \<open>
  \<open>SecurityModuleFacadeModule\<close> derives from \<open>GrpcFacadeModule\<close>, which derives from
  \<open>bluetooth::Module\<close>. Neither base class is part of the file: what the module inherits
  (the base \<open>ListDependencies\<close>, \<open>Start\<close>, and the accessors \<open>GetDependency<T>()\<close> and
  \<open>GetHandler()\<close>) is taken as a parameter, a record of functions over the state \<open>'g\<close> of
  the base sub-object.
\<close>

text \<open>A module is named in a \<open>ModuleList\<close> by the address of its static factory.\<close>

datatype ModuleFactory =
    SecurityModule_Factory
  | L2capLeModule_Factory
  | L2capClassicModule_Factory
  | HciLayer_Factory
  | Other_Factory string

type_synonym ModuleList = "ModuleFactory list"

text \<open>
  \<open>ModuleList::add<T>()\<close> is declared in \<open>module.h\<close>, outside the file: it puts
  \<open>&T::Factory\<close> at the end of the list.
\<close>

definition add :: "ModuleFactory \<Rightarrow> ModuleList \<Rightarrow> ModuleList" where
  "add factory list = list @ [factory]"

text \<open>Pointers to started modules and to a handler are opaque references.\<close>

datatype ModuleRef = ModuleRef nat
datatype HandlerRef = HandlerRef nat

record 'g GrpcFacadeModule =
  GrpcFacadeModule_ListDependencies :: "ModuleList \<Rightarrow> ModuleList"
  GrpcFacadeModule_Start :: "'g \<Rightarrow> 'g"
  GetDependency :: "'g \<Rightarrow> ModuleFactory \<Rightarrow> ModuleRef"
  GetHandler :: "'g \<Rightarrow> HandlerRef"

text \<open>
  The service object keeps four of its five constructor arguments: the class has no
  member for \<open>hci_layer\<close>.
\<close>

record SecurityModuleFacadeService =
  security_module_member :: ModuleRef
  l2cap_le_module_member :: ModuleRef
  l2cap_classic_module_member :: ModuleRef
  security_handler_member :: HandlerRef

definition new_SecurityModuleFacadeService ::
  "ModuleRef \<Rightarrow> ModuleRef \<Rightarrow> ModuleRef \<Rightarrow> ModuleRef \<Rightarrow> HandlerRef \<Rightarrow> SecurityModuleFacadeService"
where
  "new_SecurityModuleFacadeService security_module l2cap_le_module l2cap_classic_module
       hci_layer security_handler =
     \<lparr> security_module_member = security_module,
       l2cap_le_module_member = l2cap_le_module,
       l2cap_classic_module_member = l2cap_classic_module,
       security_handler_member = security_handler \<rparr>"

text \<open>
  The module: its base sub-object and the member \<open>service_\<close> (\<open>None\<close> is \<open>nullptr\<close>).
  Isabelle reserves names that end in an underscore, so the members \<open>x_\<close> of the source
  are the fields \<open>x_member\<close> here.
\<close>

record 'g SecurityModuleFacadeModule =
  grpc_facade_module :: 'g
  service_member :: "SecurityModuleFacadeService option"

definition ListDependencies :: "'g GrpcFacadeModule \<Rightarrow> ModuleList \<Rightarrow> ModuleList" where
  "ListDependencies B list =
     (let list1 = GrpcFacadeModule_ListDependencies B list;
          list2 = add SecurityModule_Factory list1;
          list3 = add L2capLeModule_Factory list2;
          list4 = add L2capClassicModule_Factory list3
      in add HciLayer_Factory list4)"

text \<open>
  What \<open>Start\<close> does besides changing the module: it calls the base class, and it
  constructs a service, with five constructor arguments. \<open>Start\<close> returns the module it
  leaves and these events in their order. (C++ leaves the order in which the constructor
  arguments are evaluated open, so the reads \<open>GetDependency<T>()\<close> and \<open>GetHandler()\<close> are
  not events.)
\<close>

datatype facade_event =
    Called_GrpcFacadeModule_Start
  | Constructed_SecurityModuleFacadeService ModuleRef ModuleRef ModuleRef ModuleRef HandlerRef

definition Start ::
  "'g GrpcFacadeModule \<Rightarrow> 'g SecurityModuleFacadeModule
     \<Rightarrow> 'g SecurityModuleFacadeModule \<times> facade_event list"
where
  "Start B m =
     (let g = GrpcFacadeModule_Start B (grpc_facade_module m);
          security_module = GetDependency B g SecurityModule_Factory;
          l2cap_le_module = GetDependency B g L2capLeModule_Factory;
          l2cap_classic_module = GetDependency B g L2capClassicModule_Factory;
          hci_layer = GetDependency B g HciLayer_Factory;
          security_handler = GetHandler B g
      in (\<lparr> grpc_facade_module = g,
             service_member = Some (new_SecurityModuleFacadeService security_module
                                      l2cap_le_module l2cap_classic_module hci_layer
                                      security_handler) \<rparr>,
          [Called_GrpcFacadeModule_Start,
           Constructed_SecurityModuleFacadeService security_module l2cap_le_module
             l2cap_classic_module hci_layer security_handler]))"

definition GetService :: "'g SecurityModuleFacadeModule \<Rightarrow> SecurityModuleFacadeService option" where
  "GetService m = service_member m"

text \<open>
  A sample base class for concrete runs. Its state is the list of base-class calls made
  so far and the registry of started modules; its \<open>ListDependencies\<close> adds one module of
  its own.
\<close>

record sample_base =
  base_calls :: "string list"
  registry :: "ModuleFactory \<Rightarrow> ModuleRef"
  handler :: HandlerRef

definition sample_GrpcFacadeModule :: "sample_base GrpcFacadeModule" where
  "sample_GrpcFacadeModule =
     \<lparr> GrpcFacadeModule_ListDependencies = add (Other_Factory ''GrpcModule''),
       GrpcFacadeModule_Start = (\<lambda>g. g\<lparr> base_calls := base_calls g @ [''GrpcFacadeModule::Start''] \<rparr>),
       GetDependency = registry,
       GetHandler = handler \<rparr>"

fun sample_registry :: "ModuleFactory \<Rightarrow> ModuleRef" where
  "sample_registry SecurityModule_Factory = ModuleRef 1"
| "sample_registry L2capLeModule_Factory = ModuleRef 2"
| "sample_registry L2capClassicModule_Factory = ModuleRef 3"
| "sample_registry HciLayer_Factory = ModuleRef 4"
| "sample_registry (Other_Factory n) = ModuleRef 0"

definition sample_module :: "sample_base SecurityModuleFacadeModule" where
  "sample_module =
     \<lparr> grpc_facade_module = \<lparr> base_calls = [], registry = sample_registry, handler = HandlerRef 7 \<rparr>,
       service_member = None \<rparr>"

section \<open>The Hearing Access Profile client proxy (Java)\<close>

subsection \<open>Data\<close>

text \<open>A Java \<open>int\<close> is a 32-bit word; the proxy only compares and passes them on.\<close>

type_synonym jint = "32 word"

text \<open>A device reference is \<open>BluetoothDevice option\<close>: \<open>None\<close> is \<open>null\<close>.\<close>

record BluetoothDevice =
  mAddress :: string

datatype AttributionSource = AttributionSource string

datatype CloseGuard = CloseGuard string

text \<open>
  What a Java statement can throw. The two checked exceptions are the ones the methods
  catch; \<open>RuntimeException\<close> stands for every unchecked exception, with its class name.
\<close>

datatype throwable = RemoteException | TimeoutException | RuntimeException string

text \<open>
  A call on the binder interface \<open>IBluetoothHapClient\<close>, with the arguments the proxy
  hands over (the receiver, created fresh for each call, is left out).
\<close>

datatype call =
    Call_setConnectionPolicy "BluetoothDevice option" jint AttributionSource
  | Call_getConnectionPolicy "BluetoothDevice option" AttributionSource
  | Call_getConnectedDevices AttributionSource
  | Call_getDevicesMatchingConnectionStates "jint list" AttributionSource
  | Call_getConnectionState "BluetoothDevice option" AttributionSource
  | Call_getHapGroup "BluetoothDevice option" AttributionSource
  | Call_getActivePresetIndex "BluetoothDevice option" AttributionSource
  | Call_selectActivePreset "BluetoothDevice option" jint AttributionSource
  | Call_groupSelectActivePreset jint jint AttributionSource
  | Call_nextActivePreset "BluetoothDevice option" AttributionSource
  | Call_groupNextActivePreset jint AttributionSource
  | Call_previousActivePreset "BluetoothDevice option" AttributionSource
  | Call_groupPreviousActivePreset jint AttributionSource
  | Call_getPresetInfo "BluetoothDevice option" jint AttributionSource
  | Call_getAllPresetsInfo "BluetoothDevice option" AttributionSource
  | Call_getFeatures "BluetoothDevice option" AttributionSource
  | Call_setPresetName "BluetoothDevice option" jint string AttributionSource
  | Call_groupSetPresetName jint jint string AttributionSource

text \<open>
  The binder stub and \<open>SynchronousResultReceiver\<close> are outside the file. Their part in a
  method is the pair of statements
  \<^verbatim>\<open>service.m(args, recv); recv.awaitResultNoInterrupt(getSyncTimeout())\<close>,
  which either throws or delivers a result whose value may be \<open>null\<close> (\<open>None\<close>).
  The service is a parameter: for each call, what that pair does, once for each of the
  three receiver types the methods use.
\<close>

datatype 'a outcome = Throws throwable | Delivers "'a option"

record IBluetoothHapClient =
  awaitBoolean :: "call \<Rightarrow> bool outcome"
  awaitInteger :: "call \<Rightarrow> jint outcome"
  awaitList :: "call \<Rightarrow> BluetoothDevice list outcome"

text \<open>
  \<open>BluetoothAdapter\<close> is outside the file too. The proxy asks it \<open>isEnabled()\<close> in two
  methods and \<open>getState()\<close> in the others; both answers are parameters.
\<close>

record BluetoothAdapter =
  BluetoothAdapter_isEnabled :: bool
  BluetoothAdapter_getState :: jint

record BluetoothProfileConnector =
  BluetoothProfileConnector_getService :: "IBluetoothHapClient option"

record BluetoothHapClient =
  mCloseGuard :: "CloseGuard option"
  mAdapter :: BluetoothAdapter
  mAttributionSource :: AttributionSource
  mProfileConnector :: BluetoothProfileConnector

text \<open>
  Constants and the static address check that the file takes from \<open>BluetoothProfile\<close>,
  \<open>BluetoothAdapter\<close> and \<open>IBluetoothHapClient\<close>.
\<close>

record platform =
  CONNECTION_POLICY_FORBIDDEN :: jint
  CONNECTION_POLICY_ALLOWED :: jint
  CONNECTION_POLICY_UNKNOWN :: jint
  STATE_DISCONNECTED :: jint
  STATE_ON :: jint
  GROUP_ID_UNAVAILABLE :: jint
  checkBluetoothAddress :: "string \<Rightarrow> bool"

definition HAP_GROUP_UNAVAILABLE :: "platform \<Rightarrow> jint" where
  "HAP_GROUP_UNAVAILABLE P = GROUP_ID_UNAVAILABLE P"

subsection \<open>Effects\<close>

text \<open>
  A method runs on the proxy object \<open>this\<close> and leaves a trace of what it did outside
  itself: log lines, reads of a device's address, and calls handed to the service.
\<close>

datatype event =
    Log_w string
  | Log_e throwable
  | GetAddress BluetoothDevice
  | Forward call

record world =
  this :: BluetoothHapClient
  trace :: "event list"

definition emit :: "event \<Rightarrow> (world, unit) state" where
  "emit e = State_Monad.update (\<lambda>w. w\<lparr> trace := trace w @ [e] \<rparr>)"

definition read_this :: "(BluetoothHapClient \<Rightarrow> 'a) \<Rightarrow> (world, 'a) state" where
  "read_this field = do { w \<leftarrow> State_Monad.get; State_Monad.return (field (this w)) }"

text \<open>An expression that cannot throw, among expressions that can.\<close>

definition normally :: "(world, 'a) state \<Rightarrow> (world, throwable + 'a) state" where
  "normally m = do { x \<leftarrow> m; State_Monad.return (Inr x) }"

text \<open>
  Java's short-circuit \<open>&&\<close>: the right operand runs only when the left is true, and an
  operand that throws ends the whole expression with its exception.
\<close>

definition andAlso ::
  "(world, throwable + bool) state \<Rightarrow> (world, throwable + bool) state
     \<Rightarrow> (world, throwable + bool) state"
where
  "andAlso a b = do {
     x \<leftarrow> a;
     case x of
       Inl e \<Rightarrow> State_Monad.return (Inl e)
     | Inr left \<Rightarrow> if left then b else State_Monad.return (Inr False)
   }"

text \<open>
  The \<open>try\<close> block every method ends with:
  \<^verbatim>\<open>
  try {
      final SynchronousResultReceiver<T> recv = new SynchronousResultReceiver();
      service.m(args, mAttributionSource, recv);
      return recv.awaitResultNoInterrupt(getSyncTimeout()).getValue(defaultValue);
  } catch (RemoteException | TimeoutException e) {
      Log.e(TAG, ...);
  }
  return defaultValue;
  \<close>
  \<open>getValue(defaultValue)\<close> gives the default for a \<open>null\<close> value. An exception of another
  class is not caught: the method ends with it (\<open>Inl\<close>).
\<close>

definition tryForward ::
  "(call \<Rightarrow> 'a outcome) \<Rightarrow> call \<Rightarrow> 'a \<Rightarrow> (world, throwable + 'a) state"
where
  "tryForward await c defaultValue = do {
     emit (Forward c);
     case await c of
       Delivers v \<Rightarrow> State_Monad.return (Inr (case v of None \<Rightarrow> defaultValue | Some x \<Rightarrow> x))
     | Throws e \<Rightarrow>
         if e = RemoteException \<or> e = TimeoutException
         then do { emit (Log_e e); State_Monad.return (Inr defaultValue) }
         else State_Monad.return (Inl e)
   }"

definition notAttached :: "'a \<Rightarrow> (world, throwable + 'a) state" where
  "notAttached defaultValue = do {
     emit (Log_w ''Proxy not attached to service'');
     State_Monad.return (Inr defaultValue)
   }"

subsection \<open>Private helpers\<close>

definition getService :: "(world, IBluetoothHapClient option) state" where
  "getService = read_this (\<lambda>t. BluetoothProfileConnector_getService (mProfileConnector t))"

definition isEnabled :: "platform \<Rightarrow> (world, bool) state" where
  "isEnabled P = do {
     state \<leftarrow> read_this (\<lambda>t. BluetoothAdapter_getState (mAdapter t));
     if state = STATE_ON P then State_Monad.return True else State_Monad.return False
   }"

definition mAdapter_isEnabled :: "(world, bool) state" where
  "mAdapter_isEnabled = read_this (\<lambda>t. BluetoothAdapter_isEnabled (mAdapter t))"

text \<open>
  \<open>device.getAddress()\<close>: a \<open>NullPointerException\<close> when the reference is \<open>null\<close>; otherwise
  the address, and the read is put in the trace.
\<close>

definition getAddress :: "BluetoothDevice option \<Rightarrow> (world, throwable + string) state" where
  "getAddress device =
     (case device of
        None \<Rightarrow> State_Monad.return (Inl (RuntimeException ''java.lang.NullPointerException''))
      | Some d \<Rightarrow> do { emit (GetAddress d); State_Monad.return (Inr (mAddress d)) })"

definition isValidDevice ::
  "platform \<Rightarrow> BluetoothDevice option \<Rightarrow> (world, throwable + bool) state"
where
  "isValidDevice P device =
     (if device = None then State_Monad.return (Inr False)
      else do {
        address \<leftarrow> getAddress device;
        case address of
          Inl e \<Rightarrow> State_Monad.return (Inl e)
        | Inr address \<Rightarrow>
            if checkBluetoothAddress P address
            then State_Monad.return (Inr True) else State_Monad.return (Inr False)
      })"

subsection \<open>The public methods\<close>

text \<open>
  Each method reads the service, fixes its default value, and either logs that the
  proxy is not attached, or tests its guard and runs the \<open>try\<close> block, or falls through
  to \<open>return defaultValue\<close>. A method returns \<open>Inr\<close> of its value, or \<open>Inl\<close> of the
  exception it ends with. The guard stands outside the \<open>try\<close> block: where it validates
  a device, an exception thrown there would end the method.
\<close>

definition setConnectionPolicy ::
  "platform \<Rightarrow> BluetoothDevice option \<Rightarrow> jint \<Rightarrow> (world, throwable + bool) state"
where
  "setConnectionPolicy P device connectionPolicy = do {
     service \<leftarrow> getService;
     let defaultValue = False;
     case service of
       None \<Rightarrow> notAttached defaultValue
     | Some service \<Rightarrow> do {
         ok \<leftarrow> andAlso (normally mAdapter_isEnabled)
                 (andAlso (isValidDevice P device)
                    (State_Monad.return
                       (Inr (connectionPolicy = CONNECTION_POLICY_FORBIDDEN P
                             \<or> connectionPolicy = CONNECTION_POLICY_ALLOWED P))));
         case ok of
           Inl e \<Rightarrow> State_Monad.return (Inl e)
         | Inr ok \<Rightarrow>
             if ok then do {
               source \<leftarrow> read_this mAttributionSource;
               tryForward (awaitBoolean service) (Call_setConnectionPolicy device connectionPolicy source) defaultValue
             } else State_Monad.return (Inr defaultValue)
       }
   }"

definition getConnectionPolicy ::
  "platform \<Rightarrow> BluetoothDevice option \<Rightarrow> (world, throwable + jint) state"
where
  "getConnectionPolicy P device = do {
     service \<leftarrow> getService;
     let defaultValue = CONNECTION_POLICY_FORBIDDEN P;
     case service of
       None \<Rightarrow> notAttached defaultValue
     | Some service \<Rightarrow> do {
         ok \<leftarrow> andAlso (normally mAdapter_isEnabled) (isValidDevice P device);
         case ok of
           Inl e \<Rightarrow> State_Monad.return (Inl e)
         | Inr ok \<Rightarrow>
             if ok then do {
               source \<leftarrow> read_this mAttributionSource;
               tryForward (awaitInteger service) (Call_getConnectionPolicy device source) defaultValue
             } else State_Monad.return (Inr defaultValue)
       }
   }"

definition getConnectedDevices ::
  "platform \<Rightarrow> (world, throwable + BluetoothDevice list) state"
where
  "getConnectedDevices P = do {
     service \<leftarrow> getService;
     let defaultValue = [];
     case service of
       None \<Rightarrow> notAttached defaultValue
     | Some service \<Rightarrow> do {
         ok \<leftarrow> isEnabled P;
         if ok then do {
           source \<leftarrow> read_this mAttributionSource;
           tryForward (awaitList service) (Call_getConnectedDevices source) defaultValue
         } else State_Monad.return (Inr defaultValue)
       }
   }"

definition getDevicesMatchingConnectionStates ::
  "platform \<Rightarrow> jint list \<Rightarrow> (world, throwable + BluetoothDevice list) state"
where
  "getDevicesMatchingConnectionStates P states = do {
     service \<leftarrow> getService;
     let defaultValue = [];
     case service of
       None \<Rightarrow> notAttached defaultValue
     | Some service \<Rightarrow> do {
         ok \<leftarrow> isEnabled P;
         if ok then do {
           source \<leftarrow> read_this mAttributionSource;
           tryForward (awaitList service) (Call_getDevicesMatchingConnectionStates states source) defaultValue
         } else State_Monad.return (Inr defaultValue)
       }
   }"

definition getConnectionState ::
  "platform \<Rightarrow> BluetoothDevice option \<Rightarrow> (world, throwable + jint) state"
where
  "getConnectionState P device = do {
     service \<leftarrow> getService;
     let defaultValue = STATE_DISCONNECTED P;
     case service of
       None \<Rightarrow> notAttached defaultValue
     | Some service \<Rightarrow> do {
         ok \<leftarrow> andAlso (normally (isEnabled P)) (isValidDevice P device);
         case ok of
           Inl e \<Rightarrow> State_Monad.return (Inl e)
         | Inr ok \<Rightarrow>
             if ok then do {
               source \<leftarrow> read_this mAttributionSource;
               tryForward (awaitInteger service) (Call_getConnectionState device source) defaultValue
             } else State_Monad.return (Inr defaultValue)
       }
   }"

definition getHapGroup ::
  "platform \<Rightarrow> BluetoothDevice option \<Rightarrow> (world, throwable + jint) state"
where
  "getHapGroup P device = do {
     service \<leftarrow> getService;
     let defaultValue = HAP_GROUP_UNAVAILABLE P;
     case service of
       None \<Rightarrow> notAttached defaultValue
     | Some service \<Rightarrow> do {
         ok \<leftarrow> andAlso (normally (isEnabled P)) (isValidDevice P device);
         case ok of
           Inl e \<Rightarrow> State_Monad.return (Inl e)
         | Inr ok \<Rightarrow>
             if ok then do {
               source \<leftarrow> read_this mAttributionSource;
               tryForward (awaitInteger service) (Call_getHapGroup device source) defaultValue
             } else State_Monad.return (Inr defaultValue)
       }
   }"

definition getActivePresetIndex ::
  "platform \<Rightarrow> BluetoothDevice option \<Rightarrow> (world, throwable + bool) state"
where
  "getActivePresetIndex P device = do {
     service \<leftarrow> getService;
     let defaultValue = False;
     case service of
       None \<Rightarrow> notAttached defaultValue
     | Some service \<Rightarrow> do {
         ok \<leftarrow> andAlso (normally (isEnabled P)) (isValidDevice P device);
         case ok of
           Inl e \<Rightarrow> State_Monad.return (Inl e)
         | Inr ok \<Rightarrow>
             if ok then do {
               source \<leftarrow> read_this mAttributionSource;
               tryForward (awaitBoolean service) (Call_getActivePresetIndex device source) defaultValue
             } else State_Monad.return (Inr defaultValue)
       }
   }"

definition selectActivePreset ::
  "platform \<Rightarrow> BluetoothDevice option \<Rightarrow> jint \<Rightarrow> (world, throwable + bool) state"
where
  "selectActivePreset P device presetIndex = do {
     service \<leftarrow> getService;
     let defaultValue = False;
     case service of
       None \<Rightarrow> notAttached defaultValue
     | Some service \<Rightarrow> do {
         ok \<leftarrow> andAlso (normally (isEnabled P)) (isValidDevice P device);
         case ok of
           Inl e \<Rightarrow> State_Monad.return (Inl e)
         | Inr ok \<Rightarrow>
             if ok then do {
               source \<leftarrow> read_this mAttributionSource;
               tryForward (awaitBoolean service) (Call_selectActivePreset device presetIndex source) defaultValue
             } else State_Monad.return (Inr defaultValue)
       }
   }"

definition groupSelectActivePreset ::
  "platform \<Rightarrow> jint \<Rightarrow> jint \<Rightarrow> (world, throwable + bool) state"
where
  "groupSelectActivePreset P groupId presetIndex = do {
     service \<leftarrow> getService;
     let defaultValue = False;
     case service of
       None \<Rightarrow> notAttached defaultValue
     | Some service \<Rightarrow> do {
         ok \<leftarrow> isEnabled P;
         if ok then do {
           source \<leftarrow> read_this mAttributionSource;
           tryForward (awaitBoolean service) (Call_groupSelectActivePreset groupId presetIndex source) defaultValue
         } else State_Monad.return (Inr defaultValue)
       }
   }"

definition nextActivePreset ::
  "platform \<Rightarrow> BluetoothDevice option \<Rightarrow> (world, throwable + bool) state"
where
  "nextActivePreset P device = do {
     service \<leftarrow> getService;
     let defaultValue = False;
     case service of
       None \<Rightarrow> notAttached defaultValue
     | Some service \<Rightarrow> do {
         ok \<leftarrow> andAlso (normally (isEnabled P)) (isValidDevice P device);
         case ok of
           Inl e \<Rightarrow> State_Monad.return (Inl e)
         | Inr ok \<Rightarrow>
             if ok then do {
               source \<leftarrow> read_this mAttributionSource;
               tryForward (awaitBoolean service) (Call_nextActivePreset device source) defaultValue
             } else State_Monad.return (Inr defaultValue)
       }
   }"

definition groupNextActivePreset ::
  "platform \<Rightarrow> jint \<Rightarrow> (world, throwable + bool) state"
where
  "groupNextActivePreset P groupId = do {
     service \<leftarrow> getService;
     let defaultValue = False;
     case service of
       None \<Rightarrow> notAttached defaultValue
     | Some service \<Rightarrow> do {
         ok \<leftarrow> isEnabled P;
         if ok then do {
           source \<leftarrow> read_this mAttributionSource;
           tryForward (awaitBoolean service) (Call_groupNextActivePreset groupId source) defaultValue
         } else State_Monad.return (Inr defaultValue)
       }
   }"

definition previousActivePreset ::
  "platform \<Rightarrow> BluetoothDevice option \<Rightarrow> (world, throwable + bool) state"
where
  "previousActivePreset P device = do {
     service \<leftarrow> getService;
     let defaultValue = False;
     case service of
       None \<Rightarrow> notAttached defaultValue
     | Some service \<Rightarrow> do {
         ok \<leftarrow> andAlso (normally (isEnabled P)) (isValidDevice P device);
         case ok of
           Inl e \<Rightarrow> State_Monad.return (Inl e)
         | Inr ok \<Rightarrow>
             if ok then do {
               source \<leftarrow> read_this mAttributionSource;
               tryForward (awaitBoolean service) (Call_previousActivePreset device source) defaultValue
             } else State_Monad.return (Inr defaultValue)
       }
   }"

definition groupPreviousActivePreset ::
  "platform \<Rightarrow> jint \<Rightarrow> (world, throwable + bool) state"
where
  "groupPreviousActivePreset P groupId = do {
     service \<leftarrow> getService;
     let defaultValue = False;
     case service of
       None \<Rightarrow> notAttached defaultValue
     | Some service \<Rightarrow> do {
         ok \<leftarrow> isEnabled P;
         if ok then do {
           source \<leftarrow> read_this mAttributionSource;
           tryForward (awaitBoolean service) (Call_groupPreviousActivePreset groupId source) defaultValue
         } else State_Monad.return (Inr defaultValue)
       }
   }"

definition getPresetInfo ::
  "platform \<Rightarrow> BluetoothDevice option \<Rightarrow> jint \<Rightarrow> (world, throwable + bool) state"
where
  "getPresetInfo P device presetIndex = do {
     service \<leftarrow> getService;
     let defaultValue = False;
     case service of
       None \<Rightarrow> notAttached defaultValue
     | Some service \<Rightarrow> do {
         ok \<leftarrow> andAlso (normally (isEnabled P)) (isValidDevice P device);
         case ok of
           Inl e \<Rightarrow> State_Monad.return (Inl e)
         | Inr ok \<Rightarrow>
             if ok then do {
               source \<leftarrow> read_this mAttributionSource;
               tryForward (awaitBoolean service) (Call_getPresetInfo device presetIndex source) defaultValue
             } else State_Monad.return (Inr defaultValue)
       }
   }"

definition getAllPresetsInfo ::
  "platform \<Rightarrow> BluetoothDevice option \<Rightarrow> (world, throwable + bool) state"
where
  "getAllPresetsInfo P device = do {
     service \<leftarrow> getService;
     let defaultValue = False;
     case service of
       None \<Rightarrow> notAttached defaultValue
     | Some service \<Rightarrow> do {
         ok \<leftarrow> andAlso (normally (isEnabled P)) (isValidDevice P device);
         case ok of
           Inl e \<Rightarrow> State_Monad.return (Inl e)
         | Inr ok \<Rightarrow>
             if ok then do {
               source \<leftarrow> read_this mAttributionSource;
               tryForward (awaitBoolean service) (Call_getAllPresetsInfo device source) defaultValue
             } else State_Monad.return (Inr defaultValue)
       }
   }"

definition getFeatures ::
  "platform \<Rightarrow> BluetoothDevice option \<Rightarrow> (world, throwable + bool) state"
where
  "getFeatures P device = do {
     service \<leftarrow> getService;
     let defaultValue = False;
     case service of
       None \<Rightarrow> notAttached defaultValue
     | Some service \<Rightarrow> do {
         ok \<leftarrow> andAlso (normally (isEnabled P)) (isValidDevice P device);
         case ok of
           Inl e \<Rightarrow> State_Monad.return (Inl e)
         | Inr ok \<Rightarrow>
             if ok then do {
               source \<leftarrow> read_this mAttributionSource;
               tryForward (awaitBoolean service) (Call_getFeatures device source) defaultValue
             } else State_Monad.return (Inr defaultValue)
       }
   }"

definition setPresetName ::
  "platform \<Rightarrow> BluetoothDevice option \<Rightarrow> jint \<Rightarrow> string \<Rightarrow> (world, throwable + bool) state"
where
  "setPresetName P device presetIndex name = do {
     service \<leftarrow> getService;
     let defaultValue = False;
     case service of
       None \<Rightarrow> notAttached defaultValue
     | Some service \<Rightarrow> do {
         ok \<leftarrow> andAlso (normally (isEnabled P)) (isValidDevice P device);
         case ok of
           Inl e \<Rightarrow> State_Monad.return (Inl e)
         | Inr ok \<Rightarrow>
             if ok then do {
               source \<leftarrow> read_this mAttributionSource;
               tryForward (awaitBoolean service) (Call_setPresetName device presetIndex name source) defaultValue
             } else State_Monad.return (Inr defaultValue)
       }
   }"

definition groupSetPresetName ::
  "platform \<Rightarrow> jint \<Rightarrow> jint \<Rightarrow> string \<Rightarrow> (world, throwable + bool) state"
where
  "groupSetPresetName P groupId presetIndex name = do {
     service \<leftarrow> getService;
     let defaultValue = False;
     case service of
       None \<Rightarrow> notAttached defaultValue
     | Some service \<Rightarrow> do {
         ok \<leftarrow> isEnabled P;
         if ok then do {
           source \<leftarrow> read_this mAttributionSource;
           tryForward (awaitBoolean service) (Call_groupSetPresetName groupId presetIndex name source) defaultValue
         } else State_Monad.return (Inr defaultValue)
       }
   }"

subsection \<open>Every operation at once\<close>

text \<open>
  The claims speak of "every public operation". An \<open>operation\<close> is a method together
  with its arguments, and \<open>invoke\<close> calls the method it names. The three return types
  are put side by side in \<open>jvalue\<close>.
\<close>

datatype jvalue = JBoolean bool | JInteger jint | JList "BluetoothDevice list"

datatype operation =
    Op_setConnectionPolicy "BluetoothDevice option" jint
  | Op_getConnectionPolicy "BluetoothDevice option"
  | Op_getConnectedDevices
  | Op_getDevicesMatchingConnectionStates "jint list"
  | Op_getConnectionState "BluetoothDevice option"
  | Op_getHapGroup "BluetoothDevice option"
  | Op_getActivePresetIndex "BluetoothDevice option"
  | Op_selectActivePreset "BluetoothDevice option" jint
  | Op_groupSelectActivePreset jint jint
  | Op_nextActivePreset "BluetoothDevice option"
  | Op_groupNextActivePreset jint
  | Op_previousActivePreset "BluetoothDevice option"
  | Op_groupPreviousActivePreset jint
  | Op_getPresetInfo "BluetoothDevice option" jint
  | Op_getAllPresetsInfo "BluetoothDevice option"
  | Op_getFeatures "BluetoothDevice option"
  | Op_setPresetName "BluetoothDevice option" jint string
  | Op_groupSetPresetName jint jint string

definition boxed ::
  "('a \<Rightarrow> jvalue) \<Rightarrow> (world, throwable + 'a) state \<Rightarrow> (world, throwable + jvalue) state"
where
  "boxed box m = do { r \<leftarrow> m; State_Monad.return (map_sum id box r) }"

fun invoke :: "platform \<Rightarrow> operation \<Rightarrow> (world, throwable + jvalue) state" where
  "invoke P (Op_setConnectionPolicy device connectionPolicy) =
     boxed JBoolean (setConnectionPolicy P device connectionPolicy)"
| "invoke P (Op_getConnectionPolicy device) =
     boxed JInteger (getConnectionPolicy P device)"
| "invoke P Op_getConnectedDevices =
     boxed JList (getConnectedDevices P)"
| "invoke P (Op_getDevicesMatchingConnectionStates states) =
     boxed JList (getDevicesMatchingConnectionStates P states)"
| "invoke P (Op_getConnectionState device) =
     boxed JInteger (getConnectionState P device)"
| "invoke P (Op_getHapGroup device) =
     boxed JInteger (getHapGroup P device)"
| "invoke P (Op_getActivePresetIndex device) =
     boxed JBoolean (getActivePresetIndex P device)"
| "invoke P (Op_selectActivePreset device presetIndex) =
     boxed JBoolean (selectActivePreset P device presetIndex)"
| "invoke P (Op_groupSelectActivePreset groupId presetIndex) =
     boxed JBoolean (groupSelectActivePreset P groupId presetIndex)"
| "invoke P (Op_nextActivePreset device) =
     boxed JBoolean (nextActivePreset P device)"
| "invoke P (Op_groupNextActivePreset groupId) =
     boxed JBoolean (groupNextActivePreset P groupId)"
| "invoke P (Op_previousActivePreset device) =
     boxed JBoolean (previousActivePreset P device)"
| "invoke P (Op_groupPreviousActivePreset groupId) =
     boxed JBoolean (groupPreviousActivePreset P groupId)"
| "invoke P (Op_getPresetInfo device presetIndex) =
     boxed JBoolean (getPresetInfo P device presetIndex)"
| "invoke P (Op_getAllPresetsInfo device) =
     boxed JBoolean (getAllPresetsInfo P device)"
| "invoke P (Op_getFeatures device) =
     boxed JBoolean (getFeatures P device)"
| "invoke P (Op_setPresetName device presetIndex name) =
     boxed JBoolean (setPresetName P device presetIndex name)"
| "invoke P (Op_groupSetPresetName groupId presetIndex name) =
     boxed JBoolean (groupSetPresetName P groupId presetIndex name)"

text \<open>
  A method is run on a proxy with an empty trace. What a run shows: what it returned,
  the calls it handed to the service, the devices whose address it read, and the proxy
  object it leaves.
\<close>

definition exec :: "(world, 'a) state \<Rightarrow> BluetoothHapClient \<Rightarrow> 'a \<times> world" where
  "exec m t = run_state m \<lparr> this = t, trace = [] \<rparr>"

definition returned :: "(world, 'a) state \<Rightarrow> BluetoothHapClient \<Rightarrow> 'a" where
  "returned m t = fst (exec m t)"

fun forwarded :: "event list \<Rightarrow> call list" where
  "forwarded [] = []"
| "forwarded (Forward c # es) = c # forwarded es"
| "forwarded (e # es) = forwarded es"

fun dereferenced :: "event list \<Rightarrow> BluetoothDevice list" where
  "dereferenced [] = []"
| "dereferenced (GetAddress d # es) = d # dereferenced es"
| "dereferenced (e # es) = dereferenced es"

definition calls :: "(world, 'a) state \<Rightarrow> BluetoothHapClient \<Rightarrow> call list" where
  "calls m t = forwarded (trace (snd (exec m t)))"

definition derefs :: "(world, 'a) state \<Rightarrow> BluetoothHapClient \<Rightarrow> BluetoothDevice list" where
  "derefs m t = dereferenced (trace (snd (exec m t)))"

definition this_after :: "(world, 'a) state \<Rightarrow> BluetoothHapClient \<Rightarrow> BluetoothHapClient" where
  "this_after m t = this (snd (exec m t))"

subsection \<open>The vocabulary of the claims\<close>

text \<open>The service the proxy is attached to, if any.\<close>

definition attached :: "BluetoothHapClient \<Rightarrow> IBluetoothHapClient option" where
  "attached t = BluetoothProfileConnector_getService (mProfileConnector t)"

text \<open>
  The adapter test of an operation: \<open>setConnectionPolicy\<close> and \<open>getConnectionPolicy\<close> ask
  \<open>mAdapter.isEnabled()\<close>, every other operation compares \<open>mAdapter.getState()\<close> with
  \<open>STATE_ON\<close>.
\<close>

fun adapterEnabled :: "platform \<Rightarrow> BluetoothHapClient \<Rightarrow> operation \<Rightarrow> bool" where
  "adapterEnabled P t (Op_setConnectionPolicy device connectionPolicy) =
     BluetoothAdapter_isEnabled (mAdapter t)"
| "adapterEnabled P t (Op_getConnectionPolicy device) =
     BluetoothAdapter_isEnabled (mAdapter t)"
| "adapterEnabled P t op = (BluetoothAdapter_getState (mAdapter t) = STATE_ON P)"

text \<open>A device passes validation when it is not \<open>null\<close> and its address passes the check.\<close>

definition validDevice :: "platform \<Rightarrow> BluetoothDevice option \<Rightarrow> bool" where
  "validDevice P device =
     (case device of None \<Rightarrow> False | Some d \<Rightarrow> checkBluetoothAddress P (mAddress d))"

text \<open>The device argument of a device-taking operation; \<open>None\<close> for the others.\<close>

fun deviceArgument :: "operation \<Rightarrow> BluetoothDevice option option" where
  "deviceArgument (Op_setConnectionPolicy device connectionPolicy) = Some device"
| "deviceArgument (Op_getConnectionPolicy device) = Some device"
| "deviceArgument Op_getConnectedDevices = None"
| "deviceArgument (Op_getDevicesMatchingConnectionStates states) = None"
| "deviceArgument (Op_getConnectionState device) = Some device"
| "deviceArgument (Op_getHapGroup device) = Some device"
| "deviceArgument (Op_getActivePresetIndex device) = Some device"
| "deviceArgument (Op_selectActivePreset device presetIndex) = Some device"
| "deviceArgument (Op_groupSelectActivePreset groupId presetIndex) = None"
| "deviceArgument (Op_nextActivePreset device) = Some device"
| "deviceArgument (Op_groupNextActivePreset groupId) = None"
| "deviceArgument (Op_previousActivePreset device) = Some device"
| "deviceArgument (Op_groupPreviousActivePreset groupId) = None"
| "deviceArgument (Op_getPresetInfo device presetIndex) = Some device"
| "deviceArgument (Op_getAllPresetsInfo device) = Some device"
| "deviceArgument (Op_getFeatures device) = Some device"
| "deviceArgument (Op_setPresetName device presetIndex name) = Some device"
| "deviceArgument (Op_groupSetPresetName groupId presetIndex name) = None"

text \<open>
  The per-method default values as the specification lists them: \<open>false\<close> for the boolean
  operations, \<open>CONNECTION_POLICY_FORBIDDEN\<close> for \<open>getConnectionPolicy\<close>, \<open>STATE_DISCONNECTED\<close>
  for \<open>getConnectionState\<close>, an empty list for the two list operations, and
  \<open>HAP_GROUP_UNAVAILABLE\<close> for \<open>getHapGroup\<close>.
\<close>

fun perMethodDefault :: "platform \<Rightarrow> operation \<Rightarrow> jvalue" where
  "perMethodDefault P (Op_getConnectionPolicy device) = JInteger (CONNECTION_POLICY_FORBIDDEN P)"
| "perMethodDefault P (Op_getConnectionState device) = JInteger (STATE_DISCONNECTED P)"
| "perMethodDefault P Op_getConnectedDevices = JList []"
| "perMethodDefault P (Op_getDevicesMatchingConnectionStates states) = JList []"
| "perMethodDefault P (Op_getHapGroup device) = JInteger (HAP_GROUP_UNAVAILABLE P)"
| "perMethodDefault P op = JBoolean False"

text \<open>The call that forwards an operation: the service method of the same name, with the
  operation's arguments unchanged and the proxy's attribution source.\<close>

fun forwardOf :: "AttributionSource \<Rightarrow> operation \<Rightarrow> call" where
  "forwardOf source (Op_setConnectionPolicy device connectionPolicy) =
     Call_setConnectionPolicy device connectionPolicy source"
| "forwardOf source (Op_getConnectionPolicy device) =
     Call_getConnectionPolicy device source"
| "forwardOf source Op_getConnectedDevices =
     Call_getConnectedDevices source"
| "forwardOf source (Op_getDevicesMatchingConnectionStates states) =
     Call_getDevicesMatchingConnectionStates states source"
| "forwardOf source (Op_getConnectionState device) =
     Call_getConnectionState device source"
| "forwardOf source (Op_getHapGroup device) =
     Call_getHapGroup device source"
| "forwardOf source (Op_getActivePresetIndex device) =
     Call_getActivePresetIndex device source"
| "forwardOf source (Op_selectActivePreset device presetIndex) =
     Call_selectActivePreset device presetIndex source"
| "forwardOf source (Op_groupSelectActivePreset groupId presetIndex) =
     Call_groupSelectActivePreset groupId presetIndex source"
| "forwardOf source (Op_nextActivePreset device) =
     Call_nextActivePreset device source"
| "forwardOf source (Op_groupNextActivePreset groupId) =
     Call_groupNextActivePreset groupId source"
| "forwardOf source (Op_previousActivePreset device) =
     Call_previousActivePreset device source"
| "forwardOf source (Op_groupPreviousActivePreset groupId) =
     Call_groupPreviousActivePreset groupId source"
| "forwardOf source (Op_getPresetInfo device presetIndex) =
     Call_getPresetInfo device presetIndex source"
| "forwardOf source (Op_getAllPresetsInfo device) =
     Call_getAllPresetsInfo device source"
| "forwardOf source (Op_getFeatures device) =
     Call_getFeatures device source"
| "forwardOf source (Op_setPresetName device presetIndex name) =
     Call_setPresetName device presetIndex name source"
| "forwardOf source (Op_groupSetPresetName groupId presetIndex name) =
     Call_groupSetPresetName groupId presetIndex name source"

text \<open>The address reads that validating the device argument of an operation leaves in the
  trace: one for a device that is not \<open>null\<close>, none otherwise.\<close>

definition deviceEvents :: "operation \<Rightarrow> event list" where
  "deviceEvents op = (case deviceArgument op of Some (Some d) \<Rightarrow> [GetAddress d] | _ \<Rightarrow> [])"

text \<open>The one argument test besides the device and adapter tests: \<open>setConnectionPolicy\<close>
  goes on only with the policy \<open>CONNECTION_POLICY_FORBIDDEN\<close> or \<open>CONNECTION_POLICY_ALLOWED\<close>.\<close>

fun policyRejected :: "platform \<Rightarrow> operation \<Rightarrow> bool" where
  "policyRejected P (Op_setConnectionPolicy device connectionPolicy) =
     (connectionPolicy \<noteq> CONNECTION_POLICY_FORBIDDEN P
      \<and> connectionPolicy \<noteq> CONNECTION_POLICY_ALLOWED P)"
| "policyRejected P op = False"

text \<open>What the service does with the forwarded call of an operation, read through the
  receiver type of that operation.\<close>

fun boxOutcome :: "('a \<Rightarrow> jvalue) \<Rightarrow> 'a outcome \<Rightarrow> jvalue outcome" where
  "boxOutcome box (Throws e) = Throws e"
| "boxOutcome box (Delivers v) = Delivers (map_option box v)"

fun remoteOutcome :: "IBluetoothHapClient \<Rightarrow> AttributionSource \<Rightarrow> operation \<Rightarrow> jvalue outcome" where
  "remoteOutcome service source (Op_getConnectionPolicy device) =
     boxOutcome JInteger (awaitInteger service (forwardOf source (Op_getConnectionPolicy device)))"
| "remoteOutcome service source (Op_getConnectionState device) =
     boxOutcome JInteger (awaitInteger service (forwardOf source (Op_getConnectionState device)))"
| "remoteOutcome service source (Op_getHapGroup device) =
     boxOutcome JInteger (awaitInteger service (forwardOf source (Op_getHapGroup device)))"
| "remoteOutcome service source Op_getConnectedDevices =
     boxOutcome JList (awaitList service (forwardOf source Op_getConnectedDevices))"
| "remoteOutcome service source (Op_getDevicesMatchingConnectionStates states) =
     boxOutcome JList
       (awaitList service (forwardOf source (Op_getDevicesMatchingConnectionStates states)))"
| "remoteOutcome service source op =
     boxOutcome JBoolean (awaitBoolean service (forwardOf source op))"

subsection \<open>Sample inputs\<close>

text \<open>
  Concrete inputs for running the methods. The sample platform has the values of the
  Android SDK for the constants, and an address check that accepts six pairs of
  upper-case hexadecimal digits separated by colons.
\<close>

definition isHex :: "char \<Rightarrow> bool" where
  "isHex c = (c \<in> set ''0123456789ABCDEF'')"

fun octets :: "string \<Rightarrow> bool" where
  "octets [a, b] = (isHex a \<and> isHex b)"
| "octets (a # b # c # rest) = (isHex a \<and> isHex b \<and> c = CHR '':'' \<and> octets rest)"
| "octets cs = False"

definition sample_checkBluetoothAddress :: "string \<Rightarrow> bool" where
  "sample_checkBluetoothAddress address = (length address = 17 \<and> octets address)"

definition sample_platform :: platform where
  "sample_platform =
     \<lparr> CONNECTION_POLICY_FORBIDDEN = 0,
       CONNECTION_POLICY_ALLOWED = 100,
       CONNECTION_POLICY_UNKNOWN = - 1,
       STATE_DISCONNECTED = 0,
       STATE_ON = 12,
       GROUP_ID_UNAVAILABLE = - 1,
       checkBluetoothAddress = sample_checkBluetoothAddress \<rparr>"

definition sample_device :: BluetoothDevice where
  "sample_device = \<lparr> mAddress = ''00:11:22:AA:BB:CC'' \<rparr>"

definition malformed_device :: BluetoothDevice where
  "malformed_device = \<lparr> mAddress = ''00-11-22'' \<rparr>"

text \<open>A service that answers every call, and one whose every call ends in an exception.\<close>

definition sample_service :: IBluetoothHapClient where
  "sample_service =
     \<lparr> awaitBoolean = (\<lambda>c. Delivers (Some True)),
       awaitInteger = (\<lambda>c. Delivers (Some 100)),
       awaitList = (\<lambda>c. Delivers (Some [sample_device])) \<rparr>"

definition throwing_service :: "throwable \<Rightarrow> IBluetoothHapClient" where
  "throwing_service e =
     \<lparr> awaitBoolean = (\<lambda>c. Throws e),
       awaitInteger = (\<lambda>c. Throws e),
       awaitList = (\<lambda>c. Throws e) \<rparr>"

text \<open>A proxy with the adapter on, attached to the given service (or to none).\<close>

definition sample_proxy :: "IBluetoothHapClient option \<Rightarrow> BluetoothHapClient" where
  "sample_proxy service =
     \<lparr> mCloseGuard = Some (CloseGuard ''close''),
       mAdapter = \<lparr> BluetoothAdapter_isEnabled = True, BluetoothAdapter_getState = 12 \<rparr>,
       mAttributionSource = AttributionSource ''com.example.app'',
       mProfileConnector = \<lparr> BluetoothProfileConnector_getService = service \<rparr> \<rparr>"

text \<open>The same proxy with the adapter off (\<open>STATE_OFF\<close> is 10 in the Android SDK).\<close>

definition switched_off :: "BluetoothHapClient \<Rightarrow> BluetoothHapClient" where
  "switched_off t =
     t\<lparr> mAdapter := \<lparr> BluetoothAdapter_isEnabled = False, BluetoothAdapter_getState = 10 \<rparr> \<rparr>"

section \<open>Running the helpers\<close>

text \<open>What each helper of the proxy does to a world, as an equation on \<open>run_state\<close>.\<close>

lemma run_emit: "run_state (emit e) w = ((), w\<lparr> trace := trace w @ [e] \<rparr>)"
  by (simp add: emit_def State_Monad.update_def)

lemma run_read_this: "run_state (read_this f) w = (f (this w), w)"
  by (simp add: read_this_def)

lemma run_normally:
  "run_state (normally m) w = (case run_state m w of (x, w') \<Rightarrow> (Inr x, w'))"
  by (simp add: normally_def split: prod.splits)

lemma run_andAlso:
  "run_state (andAlso a b) w =
     (case run_state a w of
        (Inl e, w') \<Rightarrow> (Inl e, w')
      | (Inr left, w') \<Rightarrow> if left then run_state b w' else (Inr False, w'))"
  by (simp add: andAlso_def split: prod.splits sum.splits)

lemma run_getAddress:
  "run_state (getAddress device) w =
     (case device of
        None \<Rightarrow> (Inl (RuntimeException ''java.lang.NullPointerException''), w)
      | Some d \<Rightarrow> (Inr (mAddress d), w\<lparr> trace := trace w @ [GetAddress d] \<rparr>))"
  by (simp add: getAddress_def run_emit split: option.splits)

text \<open>The check never throws: it reads the address only of a device that is not \<open>null\<close>.\<close>

lemma run_isValidDevice:
  "run_state (isValidDevice P device) w =
     (Inr (validDevice P device),
      case device of None \<Rightarrow> w | Some d \<Rightarrow> w\<lparr> trace := trace w @ [GetAddress d] \<rparr>)"
  by (cases device) (simp_all add: isValidDevice_def validDevice_def run_getAddress)

lemma run_isEnabled:
  "run_state (isEnabled P) w = (BluetoothAdapter_getState (mAdapter (this w)) = STATE_ON P, w)"
  by (simp add: isEnabled_def run_read_this)

lemma run_mAdapter_isEnabled:
  "run_state mAdapter_isEnabled w = (BluetoothAdapter_isEnabled (mAdapter (this w)), w)"
  by (simp add: mAdapter_isEnabled_def run_read_this)

lemma run_getService: "run_state getService w = (attached (this w), w)"
  by (simp add: getService_def attached_def run_read_this)

lemma run_notAttached:
  "run_state (notAttached d) w =
     (Inr d, w\<lparr> trace := trace w @ [Log_w ''Proxy not attached to service''] \<rparr>)"
  by (simp add: notAttached_def run_emit)

lemma run_tryForward:
  "run_state (tryForward await c d) w =
     (case await c of
        Delivers v \<Rightarrow> (Inr (case v of None \<Rightarrow> d | Some x \<Rightarrow> x), w\<lparr> trace := trace w @ [Forward c] \<rparr>)
      | Throws e \<Rightarrow>
          if e = RemoteException \<or> e = TimeoutException
          then (Inr d, w\<lparr> trace := trace w @ [Forward c, Log_e e] \<rparr>)
          else (Inl e, w\<lparr> trace := trace w @ [Forward c] \<rparr>))"
  by (simp add: tryForward_def run_emit split: outcome.splits)

lemma run_boxed:
  "run_state (boxed box m) w = (case run_state m w of (r, w') \<Rightarrow> (map_sum id box r, w'))"
  by (simp add: boxed_def split: prod.splits)

lemmas run_helpers =
  run_emit run_read_this run_normally run_andAlso run_isValidDevice run_isEnabled
  run_mAdapter_isEnabled run_getService run_notAttached run_tryForward run_boxed

lemmas method_defs =
  setConnectionPolicy_def getConnectionPolicy_def getConnectedDevices_def
  getDevicesMatchingConnectionStates_def getConnectionState_def getHapGroup_def
  getActivePresetIndex_def selectActivePreset_def groupSelectActivePreset_def
  nextActivePreset_def groupNextActivePreset_def previousActivePreset_def
  groupPreviousActivePreset_def getPresetInfo_def getAllPresetsInfo_def getFeatures_def
  setPresetName_def groupSetPresetName_def

lemmas observer_defs = exec_def returned_def calls_def derefs_def this_after_def

lemmas sample_defs =
  sample_platform_def sample_proxy_def sample_service_def throwing_service_def
  sample_device_def malformed_device_def sample_checkBluetoothAddress_def isHex_def
  switched_off_def

text \<open>
  Every operation in closed form: the result and the trace of \<open>invoke\<close>, by the service
  the proxy is attached to, the adapter test, the device test, the policy test and the
  outcome of the forwarded call.
\<close>

lemma exec_invoke:
  "exec (invoke P op) t =
     (let dflt = perMethodDefault P op; c = forwardOf (mAttributionSource t) op in
      case attached t of
        None \<Rightarrow> (Inr dflt, \<lparr> this = t, trace = [Log_w ''Proxy not attached to service''] \<rparr>)
      | Some service \<Rightarrow>
          if \<not> adapterEnabled P t op then (Inr dflt, \<lparr> this = t, trace = [] \<rparr>)
          else if (\<exists>device. deviceArgument op = Some device \<and> \<not> validDevice P device)
                  \<or> policyRejected P op
          then (Inr dflt, \<lparr> this = t, trace = deviceEvents op \<rparr>)
          else (case remoteOutcome service (mAttributionSource t) op of
                  Delivers v \<Rightarrow>
                    (Inr (case v of None \<Rightarrow> dflt | Some x \<Rightarrow> x),
                     \<lparr> this = t, trace = deviceEvents op @ [Forward c] \<rparr>)
                | Throws e \<Rightarrow>
                    if e = RemoteException \<or> e = TimeoutException
                    then (Inr dflt, \<lparr> this = t, trace = deviceEvents op @ [Forward c, Log_e e] \<rparr>)
                    else (Inl e, \<lparr> this = t, trace = deviceEvents op @ [Forward c] \<rparr>)))"
  by (cases op)
     (auto simp add: exec_def method_defs run_helpers HAP_GROUP_UNAVAILABLE_def Let_def
        deviceEvents_def split: option.splits outcome.splits)

lemma forwarded_deviceEvents: "forwarded (deviceEvents op @ es) = forwarded es"
  by (simp add: deviceEvents_def split: option.splits)

section \<open>The claims\<close>

text \<open>
  C1. For every public operation, if the proxy is not attached to the service, or the
  adapter test of the operation fails, or (for an operation that takes a device) the
  device fails validation, then no call is forwarded and the operation returns its
  per-method default value: \<open>false\<close> for the boolean operations,
  \<open>CONNECTION_POLICY_FORBIDDEN\<close> for \<open>getConnectionPolicy\<close>, \<open>STATE_DISCONNECTED\<close> for
  \<open>getConnectionState\<close>, an empty list for the two list operations and
  \<open>HAP_GROUP_UNAVAILABLE\<close> for \<open>getHapGroup\<close>.
\<close>

theorem default_without_forwarding:
  assumes "attached t = None \<or> \<not> adapterEnabled P t op
           \<or> (\<exists>device. deviceArgument op = Some device \<and> \<not> validDevice P device)"
  shows "calls (invoke P op) t = [] \<and> returned (invoke P op) t = Inr (perMethodDefault P op)"
  using assms
  by (cases op)
     (auto simp add: observer_defs method_defs run_helpers HAP_GROUP_UNAVAILABLE_def Let_def
        split: option.splits)

text \<open>C1 at three inputs: a proxy that is not attached, an adapter that is off, and a
  device with a malformed address.\<close>

theorem default_without_forwarding_witness:
  "attached (sample_proxy None) = None
   \<and> calls (invoke sample_platform (Op_getHapGroup (Some sample_device))) (sample_proxy None) = []
   \<and> returned (invoke sample_platform (Op_getHapGroup (Some sample_device))) (sample_proxy None)
       = Inr (JInteger (- 1))
   \<and> \<not> adapterEnabled sample_platform (switched_off (sample_proxy (Some sample_service)))
          Op_getConnectedDevices
   \<and> calls (invoke sample_platform Op_getConnectedDevices)
        (switched_off (sample_proxy (Some sample_service))) = []
   \<and> returned (invoke sample_platform Op_getConnectedDevices)
        (switched_off (sample_proxy (Some sample_service))) = Inr (JList [])
   \<and> \<not> validDevice sample_platform (Some malformed_device)
   \<and> calls (invoke sample_platform (Op_getConnectionPolicy (Some malformed_device)))
        (sample_proxy (Some sample_service)) = []
   \<and> returned (invoke sample_platform (Op_getConnectionPolicy (Some malformed_device)))
        (sample_proxy (Some sample_service)) = Inr (JInteger 0)"
  using default_without_forwarding
          [of "sample_proxy None" sample_platform "Op_getHapGroup (Some sample_device)"]
        default_without_forwarding
          [of "switched_off (sample_proxy (Some sample_service))" sample_platform
              Op_getConnectedDevices]
        default_without_forwarding
          [of "sample_proxy (Some sample_service)" sample_platform
              "Op_getConnectionPolicy (Some malformed_device)"]
  by (simp add: attached_def validDevice_def sample_defs HAP_GROUP_UNAVAILABLE_def)

text \<open>
  C2, as stated, fails: the \<open>catch\<close> clause names \<open>RemoteException\<close> and \<open>TimeoutException\<close>
  only. When the forwarded call of \<open>getConnectedDevices\<close> ends in an unchecked exception
  (here a \<open>SecurityException\<close>), the call has been forwarded and the exception reaches the
  caller.
\<close>

theorem unchecked_exception_propagates:
  "calls (invoke sample_platform Op_getConnectedDevices)
     (sample_proxy (Some (throwing_service (RuntimeException ''java.lang.SecurityException''))))
     = [Call_getConnectedDevices (AttributionSource ''com.example.app'')]
   \<and> returned (invoke sample_platform Op_getConnectedDevices)
        (sample_proxy (Some (throwing_service (RuntimeException ''java.lang.SecurityException''))))
      = Inl (RuntimeException ''java.lang.SecurityException'')"
  by (simp add: attached_def sample_defs observer_defs getConnectedDevices_def run_helpers)

text \<open>
  C2, amended. For every public operation that forwards a call: if the forwarding path
  (the forwarded call, or awaiting its result) throws \<open>RemoteException\<close> or
  \<open>TimeoutException\<close>, the exception is caught inside the method and the method returns
  its per-method default value; an exception of any other class is not caught and
  reaches the caller.
\<close>

theorem checked_exceptions_are_caught:
  assumes "attached t = Some service"
      and "calls (invoke P op) t \<noteq> []"
      and "remoteOutcome service (mAttributionSource t) op = Throws e"
  shows "returned (invoke P op) t =
           (if e = RemoteException \<or> e = TimeoutException
            then Inr (perMethodDefault P op) else Inl e)"
proof -
  have passed: "adapterEnabled P t op"
    "\<not> ((\<exists>device. deviceArgument op = Some device \<and> \<not> validDevice P device)
         \<or> policyRejected P op)"
    using assms(1,2)
    by (auto simp add: calls_def exec_invoke Let_def forwarded_deviceEvents
          deviceEvents_def split: if_splits option.splits)
  show ?thesis
    using assms(1,3) passed by (auto simp add: returned_def exec_invoke Let_def)
qed

text \<open>C2 amended, at a service that times out on \<open>getHapGroup\<close>.\<close>

theorem checked_exceptions_are_caught_witness:
  "attached (sample_proxy (Some (throwing_service TimeoutException)))
     = Some (throwing_service TimeoutException)
   \<and> calls (invoke sample_platform (Op_getHapGroup (Some sample_device)))
        (sample_proxy (Some (throwing_service TimeoutException)))
      = [Call_getHapGroup (Some sample_device) (AttributionSource ''com.example.app'')]
   \<and> remoteOutcome (throwing_service TimeoutException) (AttributionSource ''com.example.app'')
        (Op_getHapGroup (Some sample_device)) = Throws TimeoutException
   \<and> returned (invoke sample_platform (Op_getHapGroup (Some sample_device)))
        (sample_proxy (Some (throwing_service TimeoutException))) = Inr (JInteger (- 1))"
  using checked_exceptions_are_caught
          [of "sample_proxy (Some (throwing_service TimeoutException))"
              "throwing_service TimeoutException" sample_platform
              "Op_getHapGroup (Some sample_device)" TimeoutException]
  by (simp add: attached_def validDevice_def sample_defs observer_defs getHapGroup_def
        run_helpers HAP_GROUP_UNAVAILABLE_def Let_def)

text \<open>
  C3, as stated, fails: with the service attached, the adapter on and a valid device,
  \<open>setConnectionPolicy\<close> with the policy \<open>CONNECTION_POLICY_UNKNOWN\<close> (-1) forwards nothing.
\<close>

theorem unknown_policy_not_forwarded:
  "attached (sample_proxy (Some sample_service)) = Some sample_service
   \<and> adapterEnabled sample_platform (sample_proxy (Some sample_service))
        (Op_setConnectionPolicy (Some sample_device) (- 1))
   \<and> validDevice sample_platform (Some sample_device)
   \<and> calls (invoke sample_platform (Op_setConnectionPolicy (Some sample_device) (- 1)))
        (sample_proxy (Some sample_service)) = []"
  by (simp add: attached_def validDevice_def sample_defs observer_defs setConnectionPolicy_def
        run_helpers)

text \<open>
  C3, amended. Once the service is attached, the adapter test passes and the device
  (when the operation takes one) is valid, every operation forwards its call with its
  arguments unchanged, whatever the preset index, group identifier or preset name; the
  one exception is \<open>setConnectionPolicy\<close>, which forwards only when the policy is
  \<open>CONNECTION_POLICY_FORBIDDEN\<close> or \<open>CONNECTION_POLICY_ALLOWED\<close> and forwards nothing otherwise.
\<close>

theorem forwarding_after_the_checks:
  assumes "attached t = Some service"
      and "adapterEnabled P t op"
      and "\<forall>device. deviceArgument op = Some device \<longrightarrow> validDevice P device"
  shows "calls (invoke P op) t =
           (if policyRejected P op then [] else [forwardOf (mAttributionSource t) op])"
  using assms
  by (cases op)
     (auto simp add: observer_defs method_defs run_helpers Let_def
        split: option.splits outcome.splits)

text \<open>C3 amended, at \<open>setPresetName\<close> with the preset index 300.\<close>

theorem forwarding_after_the_checks_witness:
  "attached (sample_proxy (Some sample_service)) = Some sample_service
   \<and> adapterEnabled sample_platform (sample_proxy (Some sample_service))
        (Op_setPresetName (Some sample_device) 300 ''Outdoor'')
   \<and> validDevice sample_platform (Some sample_device)
   \<and> calls (invoke sample_platform (Op_setPresetName (Some sample_device) 300 ''Outdoor''))
        (sample_proxy (Some sample_service))
      = [Call_setPresetName (Some sample_device) 300 ''Outdoor''
           (AttributionSource ''com.example.app'')]"
  using forwarding_after_the_checks
          [of "sample_proxy (Some sample_service)" sample_service sample_platform
              "Op_setPresetName (Some sample_device) 300 ''Outdoor''"]
  by (simp add: attached_def validDevice_def sample_defs)

text \<open>
  C4. \<open>selectActivePreset\<close>, \<open>getPresetInfo\<close>, \<open>setPresetName\<close>, \<open>groupSelectActivePreset\<close> and
  \<open>groupSetPresetName\<close> forward \<open>presetIndex\<close> unchanged, for every 32-bit integer: whether
  a call is forwarded depends on the service, the adapter and the device only, never on
  the preset index, and the forwarded call carries the index as it was given.
\<close>

theorem preset_index_forwarded_unchanged:
  "calls (selectActivePreset P device presetIndex) t =
     (if attached t \<noteq> None \<and> BluetoothAdapter_getState (mAdapter t) = STATE_ON P
         \<and> validDevice P device
      then [Call_selectActivePreset device presetIndex (mAttributionSource t)] else [])
   \<and> calls (getPresetInfo P device presetIndex) t =
     (if attached t \<noteq> None \<and> BluetoothAdapter_getState (mAdapter t) = STATE_ON P
         \<and> validDevice P device
      then [Call_getPresetInfo device presetIndex (mAttributionSource t)] else [])
   \<and> calls (setPresetName P device presetIndex name) t =
     (if attached t \<noteq> None \<and> BluetoothAdapter_getState (mAdapter t) = STATE_ON P
         \<and> validDevice P device
      then [Call_setPresetName device presetIndex name (mAttributionSource t)] else [])
   \<and> calls (groupSelectActivePreset P groupId presetIndex) t =
     (if attached t \<noteq> None \<and> BluetoothAdapter_getState (mAdapter t) = STATE_ON P
      then [Call_groupSelectActivePreset groupId presetIndex (mAttributionSource t)] else [])
   \<and> calls (groupSetPresetName P groupId presetIndex name) t =
     (if attached t \<noteq> None \<and> BluetoothAdapter_getState (mAdapter t) = STATE_ON P
      then [Call_groupSetPresetName groupId presetIndex name (mAttributionSource t)] else [])"
proof (cases "attached t")
  case None
  then show ?thesis
    by (simp add: observer_defs selectActivePreset_def getPresetInfo_def setPresetName_def
          groupSelectActivePreset_def groupSetPresetName_def run_getService run_notAttached)
next
  case (Some service)
  show ?thesis
  proof (cases "BluetoothAdapter_getState (mAdapter t) = STATE_ON P")
    case True
    with Some show ?thesis
      by (cases device)
         (simp_all add: observer_defs selectActivePreset_def getPresetInfo_def
            setPresetName_def groupSelectActivePreset_def groupSetPresetName_def run_helpers
            split: outcome.splits)
  next
    case False
    with Some show ?thesis
      by (simp add: observer_defs selectActivePreset_def getPresetInfo_def setPresetName_def
            groupSelectActivePreset_def groupSetPresetName_def run_helpers)
  qed
qed

text \<open>C4 at a negative preset index and at one above 255.\<close>

theorem preset_index_forwarded_unchanged_witness:
  "sint (- 1 :: jint) < 0
   \<and> calls (selectActivePreset sample_platform (Some sample_device) (- 1))
        (sample_proxy (Some sample_service))
      = [Call_selectActivePreset (Some sample_device) (- 1) (AttributionSource ''com.example.app'')]
   \<and> 255 < sint (256 :: jint)
   \<and> calls (groupSetPresetName sample_platform 5 256 ''Outdoor'')
        (sample_proxy (Some sample_service))
      = [Call_groupSetPresetName 5 256 ''Outdoor'' (AttributionSource ''com.example.app'')]"
  using preset_index_forwarded_unchanged
          [of sample_platform "Some sample_device" "- 1" "sample_proxy (Some sample_service)"
              "''Outdoor''" 5]
        preset_index_forwarded_unchanged
          [of sample_platform "Some sample_device" 256 "sample_proxy (Some sample_service)"
              "''Outdoor''" 5]
  by (simp add: attached_def validDevice_def sample_defs)

text \<open>
  C5. \<open>SecurityModuleFacadeModule::ListDependencies\<close> leaves the list as the base
  \<open>GrpcFacadeModule::ListDependencies\<close> left it, followed by exactly the four modules
  \<open>SecurityModule\<close>, \<open>l2cap::le::L2capLeModule\<close>, \<open>l2cap::classic::L2capClassicModule\<close> and
  \<open>hci::HciLayer\<close>.
\<close>

theorem ListDependencies_adds_four:
  "ListDependencies B list =
     GrpcFacadeModule_ListDependencies B list
       @ [SecurityModule_Factory, L2capLeModule_Factory, L2capClassicModule_Factory,
          HciLayer_Factory]"
  by (simp add: ListDependencies_def add_def)

text \<open>C5 on the empty list, with a base class that adds one module of its own.\<close>

theorem ListDependencies_adds_four_witness:
  "ListDependencies sample_GrpcFacadeModule [] =
     [Other_Factory ''GrpcModule'', SecurityModule_Factory, L2capLeModule_Factory,
      L2capClassicModule_Factory, HciLayer_Factory]"
  using ListDependencies_adds_four [of sample_GrpcFacadeModule "[]"]
  by (simp add: sample_GrpcFacadeModule_def add_def)

text \<open>
  C6. No public operation changes the proxy object: \<open>mAdapter\<close>, \<open>mAttributionSource\<close>,
  \<open>mProfileConnector\<close> and \<open>mCloseGuard\<close> are after the call what they were before it. Every
  value an operation returns is its per-method default or the value the service
  delivered for the forwarded call.
\<close>

theorem operations_leave_the_proxy_unchanged:
  "this_after (invoke P op) t = t
   \<and> (\<forall>v. returned (invoke P op) t = Inr v \<longrightarrow>
          v = perMethodDefault P op
          \<or> (\<exists>service. attached t = Some service
                \<and> remoteOutcome service (mAttributionSource t) op = Delivers (Some v)))"
proof
  show "this_after (invoke P op) t = t"
    by (simp add: this_after_def exec_invoke Let_def split: option.splits outcome.splits)
next
  show "\<forall>v. returned (invoke P op) t = Inr v \<longrightarrow>
          v = perMethodDefault P op
          \<or> (\<exists>service. attached t = Some service
                \<and> remoteOutcome service (mAttributionSource t) op = Delivers (Some v))"
  proof (intro allI impI)
    fix v
    assume r: "returned (invoke P op) t = Inr v"
    show "v = perMethodDefault P op
          \<or> (\<exists>service. attached t = Some service
                \<and> remoteOutcome service (mAttributionSource t) op = Delivers (Some v))"
    proof (cases "attached t")
      case None
      with r show ?thesis by (simp add: returned_def exec_invoke Let_def)
    next
      case (Some service)
      with r show ?thesis
        by (cases "remoteOutcome service (mAttributionSource t) op")
           (auto simp add: returned_def exec_invoke Let_def split: if_splits option.splits)
    qed
  qed
qed

text \<open>C6 at \<open>getConnectionPolicy\<close>, where the service delivers 100 and the default is 0.\<close>

theorem operations_leave_the_proxy_unchanged_witness:
  "this_after (invoke sample_platform (Op_getConnectionPolicy (Some sample_device)))
     (sample_proxy (Some sample_service)) = sample_proxy (Some sample_service)
   \<and> returned (invoke sample_platform (Op_getConnectionPolicy (Some sample_device)))
        (sample_proxy (Some sample_service)) = Inr (JInteger 100)
   \<and> JInteger 100 \<noteq> perMethodDefault sample_platform (Op_getConnectionPolicy (Some sample_device))
   \<and> attached (sample_proxy (Some sample_service)) = Some sample_service
   \<and> remoteOutcome sample_service (mAttributionSource (sample_proxy (Some sample_service)))
        (Op_getConnectionPolicy (Some sample_device)) = Delivers (Some (JInteger 100))"
  using operations_leave_the_proxy_unchanged
          [of sample_platform "Op_getConnectionPolicy (Some sample_device)"
              "sample_proxy (Some sample_service)"]
  by (simp add: attached_def validDevice_def sample_defs observer_defs getConnectionPolicy_def
        run_helpers Let_def)

text \<open>
  C7. After \<open>Start\<close>, \<open>GetService()\<close> returns the service that \<open>Start\<close> constructed from the
  four dependencies \<open>SecurityModule\<close>, \<open>L2capLeModule\<close>, \<open>L2capClassicModule\<close>, \<open>HciLayer\<close> and
  the handler: the constructor received exactly these five, and the service returned
  holds the first three and the handler in its members (the class has no member for
  \<open>hci_layer\<close>). The base \<open>GrpcFacadeModule::Start\<close> runs first: it is the first event of
  \<open>Start\<close>, the dependencies and the handler are read from the state it leaves, and that
  state is the base sub-object of the started module.
\<close>

theorem GetService_after_Start:
  "(let g = GrpcFacadeModule_Start B (grpc_facade_module m)
    in GetService (fst (Start B m)) =
         Some \<lparr> security_module_member = GetDependency B g SecurityModule_Factory,
                l2cap_le_module_member = GetDependency B g L2capLeModule_Factory,
                l2cap_classic_module_member = GetDependency B g L2capClassicModule_Factory,
                security_handler_member = GetHandler B g \<rparr>
       \<and> snd (Start B m) =
           [Called_GrpcFacadeModule_Start,
            Constructed_SecurityModuleFacadeService
              (GetDependency B g SecurityModule_Factory)
              (GetDependency B g L2capLeModule_Factory)
              (GetDependency B g L2capClassicModule_Factory)
              (GetDependency B g HciLayer_Factory)
              (GetHandler B g)]
       \<and> grpc_facade_module (fst (Start B m)) = g)"
proof -
  define g where "g = GrpcFacadeModule_Start B (grpc_facade_module m)"
  have service: "service_member (fst (Start B m)) =
      Some (new_SecurityModuleFacadeService
              (GetDependency B g SecurityModule_Factory)
              (GetDependency B g L2capLeModule_Factory)
              (GetDependency B g L2capClassicModule_Factory)
              (GetDependency B g HciLayer_Factory)
              (GetHandler B g))"
    by (simp add: Start_def Let_def g_def)
  have events: "snd (Start B m) =
      [Called_GrpcFacadeModule_Start,
       Constructed_SecurityModuleFacadeService
         (GetDependency B g SecurityModule_Factory)
         (GetDependency B g L2capLeModule_Factory)
         (GetDependency B g L2capClassicModule_Factory)
         (GetDependency B g HciLayer_Factory)
         (GetHandler B g)]"
    by (simp add: Start_def Let_def g_def)
  have base: "grpc_facade_module (fst (Start B m)) = g"
    by (simp add: Start_def Let_def g_def)
  show ?thesis
    using service events base
    by (simp add: GetService_def new_SecurityModuleFacadeService_def Let_def g_def)
qed

text \<open>C7 on the sample module: the base \<open>Start\<close> has run once, the constructor has received
  the four modules of the registry and the handler, and the service holds three of the
  modules and the handler.\<close>

theorem GetService_after_Start_witness:
  "GetService (fst (Start sample_GrpcFacadeModule sample_module)) =
     Some \<lparr> security_module_member = ModuleRef 1, l2cap_le_module_member = ModuleRef 2,
            l2cap_classic_module_member = ModuleRef 3, security_handler_member = HandlerRef 7 \<rparr>
   \<and> snd (Start sample_GrpcFacadeModule sample_module) =
       [Called_GrpcFacadeModule_Start,
        Constructed_SecurityModuleFacadeService (ModuleRef 1) (ModuleRef 2) (ModuleRef 3)
          (ModuleRef 4) (HandlerRef 7)]
   \<and> base_calls (grpc_facade_module (fst (Start sample_GrpcFacadeModule sample_module)))
       = [''GrpcFacadeModule::Start'']"
  using GetService_after_Start [of sample_GrpcFacadeModule sample_module]
  by (simp add: sample_GrpcFacadeModule_def sample_module_def Let_def)

text \<open>
  C8. \<open>setConnectionPolicy\<close> returns \<open>false\<close> and forwards nothing whenever the policy is
  neither \<open>CONNECTION_POLICY_FORBIDDEN\<close> nor \<open>CONNECTION_POLICY_ALLOWED\<close>, whatever the
  service, the adapter and the device are.
\<close>

theorem setConnectionPolicy_rejects_other_policies:
  assumes "connectionPolicy \<noteq> CONNECTION_POLICY_FORBIDDEN P"
      and "connectionPolicy \<noteq> CONNECTION_POLICY_ALLOWED P"
  shows "returned (setConnectionPolicy P device connectionPolicy) t = Inr False
         \<and> calls (setConnectionPolicy P device connectionPolicy) t = []"
proof (cases "attached t")
  case None
  then show ?thesis
    by (simp add: observer_defs setConnectionPolicy_def run_getService run_notAttached)
next
  case (Some service)
  show ?thesis
    using Some assms
    by (auto simp add: observer_defs setConnectionPolicy_def run_helpers split: option.splits)
qed

text \<open>C8 at \<open>CONNECTION_POLICY_UNKNOWN\<close>, with the service attached, the adapter on and a
  valid device.\<close>

theorem setConnectionPolicy_rejects_other_policies_witness:
  "CONNECTION_POLICY_UNKNOWN sample_platform \<noteq> CONNECTION_POLICY_FORBIDDEN sample_platform
   \<and> CONNECTION_POLICY_UNKNOWN sample_platform \<noteq> CONNECTION_POLICY_ALLOWED sample_platform
   \<and> returned (setConnectionPolicy sample_platform (Some sample_device)
                  (CONNECTION_POLICY_UNKNOWN sample_platform))
        (sample_proxy (Some sample_service)) = Inr False
   \<and> calls (setConnectionPolicy sample_platform (Some sample_device)
               (CONNECTION_POLICY_UNKNOWN sample_platform))
        (sample_proxy (Some sample_service)) = []"
  using setConnectionPolicy_rejects_other_policies
          [of "CONNECTION_POLICY_UNKNOWN sample_platform" sample_platform
              "Some sample_device" "sample_proxy (Some sample_service)"]
  by (simp add: sample_platform_def)

text \<open>
  C9. The group operations \<open>groupSelectActivePreset\<close>, \<open>groupNextActivePreset\<close>,
  \<open>groupPreviousActivePreset\<close> and \<open>groupSetPresetName\<close> do not validate \<open>groupId\<close>: for every
  32-bit integer, when the service is attached and the adapter state is \<open>STATE_ON\<close>, the
  call is forwarded with that \<open>groupId\<close> unchanged, and no device is checked.
\<close>

theorem group_operations_forward_any_groupId:
  assumes "attached t = Some service"
      and "BluetoothAdapter_getState (mAdapter t) = STATE_ON P"
  shows "calls (groupSelectActivePreset P groupId presetIndex) t
           = [Call_groupSelectActivePreset groupId presetIndex (mAttributionSource t)]
         \<and> calls (groupNextActivePreset P groupId) t
           = [Call_groupNextActivePreset groupId (mAttributionSource t)]
         \<and> calls (groupPreviousActivePreset P groupId) t
           = [Call_groupPreviousActivePreset groupId (mAttributionSource t)]
         \<and> calls (groupSetPresetName P groupId presetIndex name) t
           = [Call_groupSetPresetName groupId presetIndex name (mAttributionSource t)]
         \<and> derefs (groupSelectActivePreset P groupId presetIndex) t = []
         \<and> derefs (groupNextActivePreset P groupId) t = []
         \<and> derefs (groupPreviousActivePreset P groupId) t = []
         \<and> derefs (groupSetPresetName P groupId presetIndex name) t = []"
proof -
  have on: "run_state (isEnabled P) \<lparr> this = t, trace = [] \<rparr> = (True, \<lparr> this = t, trace = [] \<rparr>)"
    using assms(2) by (simp add: run_isEnabled)
  have svc: "run_state getService \<lparr> this = t, trace = [] \<rparr> = (Some service, \<lparr> this = t, trace = [] \<rparr>)"
    using assms(1) by (simp add: run_getService)
  show ?thesis
    by (simp add: observer_defs groupSelectActivePreset_def groupNextActivePreset_def
          groupPreviousActivePreset_def groupSetPresetName_def on svc run_read_this
          run_tryForward run_emit split: outcome.splits)
qed

text \<open>C9 at a negative group identifier.\<close>

theorem group_operations_forward_any_groupId_witness:
  "attached (sample_proxy (Some sample_service)) = Some sample_service
   \<and> BluetoothAdapter_getState (mAdapter (sample_proxy (Some sample_service)))
       = STATE_ON sample_platform
   \<and> sint (- 7 :: jint) < 0
   \<and> calls (groupNextActivePreset sample_platform (- 7)) (sample_proxy (Some sample_service))
       = [Call_groupNextActivePreset (- 7) (AttributionSource ''com.example.app'')]
   \<and> derefs (groupNextActivePreset sample_platform (- 7)) (sample_proxy (Some sample_service))
       = []"
  using group_operations_forward_any_groupId
          [of "sample_proxy (Some sample_service)" sample_service sample_platform "- 7" 0 "[]"]
  by (simp add: attached_def sample_defs)

text \<open>
  C10, as stated, fails in one part: the operation does not return "without
  dereferencing the device" when the device is not \<open>null\<close> and its address is malformed.
  \<open>isValidDevice\<close> calls \<open>device.getAddress()\<close> to test the address, so with the service
  attached and the adapter on the device has been dereferenced once.
\<close>

theorem malformed_device_is_dereferenced:
  "deviceArgument (Op_getConnectionState (Some malformed_device)) = Some (Some malformed_device)
   \<and> \<not> validDevice sample_platform (Some malformed_device)
   \<and> derefs (invoke sample_platform (Op_getConnectionState (Some malformed_device)))
        (sample_proxy (Some sample_service)) = [malformed_device]"
  by (simp add: validDevice_def attached_def sample_defs observer_defs
        getConnectionState_def run_helpers Let_def)

text \<open>
  C10, amended. For every operation that takes a device, a \<open>null\<close> device or a device whose
  address fails the check never throws: \<open>isValidDevice\<close> returns false for both, and the
  operation returns its per-method default value without contacting the service. A
  \<open>null\<close> device is never dereferenced; a device that is not \<open>null\<close> is dereferenced once,
  by the \<open>getAddress()\<close> call of \<open>isValidDevice\<close>, when the service is attached and the
  adapter test passes.
\<close>

theorem invalid_device_never_throws:
  assumes "deviceArgument op = Some device" and "\<not> validDevice P device"
  shows "returned (invoke P op) t = Inr (perMethodDefault P op)
         \<and> calls (invoke P op) t = []
         \<and> derefs (invoke P op) t =
             (case device of
                None \<Rightarrow> []
              | Some d \<Rightarrow> if attached t \<noteq> None \<and> adapterEnabled P t op then [d] else [])"
  using assms
  by (cases op)
     (auto simp add: observer_defs method_defs run_helpers HAP_GROUP_UNAVAILABLE_def Let_def
        split: option.splits)

text \<open>C10 amended, at a \<open>null\<close> device and at a device with a malformed address.\<close>

theorem invalid_device_never_throws_witness:
  "deviceArgument (Op_getConnectionState None) = Some None
   \<and> \<not> validDevice sample_platform None
   \<and> returned (invoke sample_platform (Op_getConnectionState None))
        (sample_proxy (Some sample_service)) = Inr (JInteger 0)
   \<and> calls (invoke sample_platform (Op_getConnectionState None))
        (sample_proxy (Some sample_service)) = []
   \<and> derefs (invoke sample_platform (Op_getConnectionState None))
        (sample_proxy (Some sample_service)) = []
   \<and> \<not> validDevice sample_platform (Some malformed_device)
   \<and> returned (invoke sample_platform (Op_getFeatures (Some malformed_device)))
        (sample_proxy (Some sample_service)) = Inr (JBoolean False)
   \<and> calls (invoke sample_platform (Op_getFeatures (Some malformed_device)))
        (sample_proxy (Some sample_service)) = []
   \<and> derefs (invoke sample_platform (Op_getFeatures (Some malformed_device)))
        (sample_proxy (Some sample_service)) = [malformed_device]"
  using invalid_device_never_throws
          [of "Op_getConnectionState None" None sample_platform
              "sample_proxy (Some sample_service)"]
        invalid_device_never_throws
          [of "Op_getFeatures (Some malformed_device)" "Some malformed_device" sample_platform
              "sample_proxy (Some sample_service)"]
  by (simp add: validDevice_def attached_def sample_defs)

end
